theory Spec2Isabelle
  imports
    Complex_Main
    "HOL-Library.Multiset"
    "HOL-Library.Char_ord"
    "HOL-Library.List_Lexorder"
    "HOL-Library.Product_Lexorder"
    "HOL-Library.Log_Nat"
begin

section \<open>Result frames and their comparison\<close>

text \<open>
  A value as the engine hands it to pandas: \<^verbatim>\<open>None\<close>, an integer, a float, a string or
  \<^verbatim>\<open>bytes\<close> (a BLOB). A float is modelled by the rational number it denotes
  (infinities are left out). Characters and bytes are codes below 256.
\<close>

datatype cell = NULL | INTEGER int | REAL rat | TEXT string | BLOB string

datatype label = Name string | Pos nat

text \<open>
  A result set as the cursor delivers it, and a DataFrame: the column labels and the
  records, each record with one cell per column. The row index of a DataFrame is the
  position in the list, which is what \<^verbatim>\<open>reset_index(drop=True)\<close> makes it.
\<close>

record frame =
  columns :: "label list"
  records :: "cell list list"

definition wf_frame :: "frame \<Rightarrow> bool" where
  "wf_frame f = list_all (\<lambda>r. length r = length (columns f)) (records f)"

definition frame_cols :: "frame \<Rightarrow> cell list list" where
  "frame_cols f = map (\<lambda>j. map (\<lambda>r. r ! j) (records f)) [0..<length (columns f)]"

fun num_of :: "cell \<Rightarrow> rat option" where
  "num_of (INTEGER i) = Some (of_int i)"
| "num_of (REAL x) = Some x"
| "num_of NULL = None"
| "num_of (TEXT s) = None"
| "num_of (BLOB b) = None"

fun is_text :: "cell \<Rightarrow> bool" where
  "is_text (TEXT s) = True"
| "is_text c = False"

fun is_blob :: "cell \<Rightarrow> bool" where
  "is_blob (BLOB b) = True"
| "is_blob c = False"

fun is_integer :: "cell \<Rightarrow> bool" where
  "is_integer (INTEGER i) = True"
| "is_integer c = False"

definition is_number :: "cell \<Rightarrow> bool" where
  "is_number c = (num_of c \<noteq> None)"

subsection \<open>Double precision\<close>

text \<open>
  \<open>float64 x\<close> is the double nearest to \<open>x\<close>, ties going to the even significand: what
  \<^verbatim>\<open>float(i)\<close> gives for an integer and what an arithmetic operation on doubles gives
  for its exact result. The significand has 53 bits; the exponent is not bounded here,
  overflow and gradual underflow being beyond the magnitudes where they could change
  an outcome of the comparison below.
\<close>

definition pow2 :: "int \<Rightarrow> rat" where
  "pow2 e = (if 0 \<le> e then 2 ^ nat e else 1 / 2 ^ nat (- e))"

definition round_half_even :: "rat \<Rightarrow> int" where
  "round_half_even r =
     (let f = \<lfloor>r\<rfloor>; d = r - of_int f
      in if d < 1 / 2 then f else if 1 / 2 < d then f + 1 else if even f then f else f + 1)"

text \<open>For \<open>0 < x\<close>, the exponent \<open>t\<close> with \<open>2^t \<le> x < 2^(t+1)\<close>.\<close>

definition ilog2 :: "rat \<Rightarrow> int" where
  "ilog2 x =
     (case quotient_of x of
        (p, q) \<Rightarrow> (let t = bitlen p - bitlen q in if pow2 t \<le> x then t else t - 1))"

definition float64 :: "rat \<Rightarrow> rat" where
  "float64 x =
     (if x = 0 then 0
      else (let e = ilog2 \<bar>x\<bar> - 52
            in sgn x * of_int (round_half_even (\<bar>x\<bar> / pow2 e)) * pow2 e))"

subsection \<open>From fetched rows to a DataFrame\<close>

text \<open>
  \<^verbatim>\<open>pd.read_sql_query\<close> turns each fetched column into an array: \<^verbatim>\<open>int64\<close> when every
  cell is an integer (and there is a cell), \<^verbatim>\<open>float64\<close> when the cells are numbers and
  missing values with at least one number, an array of Python objects otherwise. In a
  \<^verbatim>\<open>float64\<close> column an integer becomes the nearest double and a missing value NaN,
  which is still written \<open>NULL\<close>.
\<close>

datatype dtype = Int64 | Float64 | Object

definition dtype_of :: "cell list \<Rightarrow> dtype" where
  "dtype_of cs =
     (if cs \<noteq> [] \<and> list_all is_integer cs then Int64
      else if list_ex is_number cs \<and> list_all (\<lambda>c. is_number c \<or> c = NULL) cs then Float64
      else Object)"

fun as_float64 :: "cell \<Rightarrow> cell" where
  "as_float64 (INTEGER i) = REAL (float64 (of_int i))"
| "as_float64 c = c"

definition convert_row :: "dtype list \<Rightarrow> cell list \<Rightarrow> cell list" where
  "convert_row ds r = map (\<lambda>(d, c). if d = Float64 then as_float64 c else c) (zip ds r)"

definition to_dataframe :: "frame \<Rightarrow> frame" where
  "to_dataframe f =
     f\<lparr>records := map (convert_row (map dtype_of (frame_cols f))) (records f)\<rparr>"

subsection \<open>The comparison\<close>

text \<open>\<^verbatim>\<open>df.columns = range(len(df.columns))\<close>\<close>

definition renumber :: "frame \<Rightarrow> frame" where
  "renumber f = f\<lparr>columns := map Pos [0..<length (columns f)]\<rparr>"

text \<open>
  \<^verbatim>\<open>df.sort_values(by=list(df.columns))\<close> on a frame whose labels are \<open>0..k-1\<close>: the
  records are ordered by their cells from left to right, ascending, missing values
  last in each column (\<^verbatim>\<open>na_position='last'\<close>). Numbers are ordered by value, strings
  by code points, BLOBs by bytes.

  With a single sort column pandas sorts the column's values themselves. Python
  compares numbers with numbers, \<^verbatim>\<open>str\<close> with \<^verbatim>\<open>str\<close> and \<^verbatim>\<open>bytes\<close> with \<^verbatim>\<open>bytes\<close> only, so
  a column whose values are of two of these kinds cannot be ordered and the call
  raises TypeError.

  With several sort columns pandas sorts by the codes of ordered categoricals. Their
  categories are ordered in two groups, the strings after everything else, so a column
  may hold strings besides numbers or besides BLOBs; a column holding both a BLOB and
  a number still raises TypeError.

  Records that agree in every sort key hold the same values, so their relative order
  does not show in the comparison that follows.
\<close>

datatype py_exception = TypeError

fun cell_key :: "cell \<Rightarrow> nat \<times> rat \<times> string" where
  "cell_key (INTEGER i) = (0, of_int i, [])"
| "cell_key (REAL x) = (0, x, [])"
| "cell_key (BLOB b) = (1, 0, b)"
| "cell_key (TEXT s) = (2, 0, s)"
| "cell_key NULL = (3, 0, [])"

definition one_kind :: "cell list \<Rightarrow> bool" where
  "one_kind cs =
     (\<not> (list_ex is_text cs \<and> list_ex is_number cs)
      \<and> \<not> (list_ex is_blob cs \<and> list_ex is_number cs)
      \<and> \<not> (list_ex is_blob cs \<and> list_ex is_text cs))"

definition no_blob_with_number :: "cell list \<Rightarrow> bool" where
  "no_blob_with_number cs = (\<not> (list_ex is_blob cs \<and> list_ex is_number cs))"

definition can_sort :: "frame \<Rightarrow> bool" where
  "can_sort f =
     (if length (columns f) = 1 then list_all one_kind (frame_cols f)
      else list_all no_blob_with_number (frame_cols f))"

definition sort_values :: "frame \<Rightarrow> py_exception + frame" where
  "sort_values f =
     (if can_sort f then Inr (f\<lparr>records := sort_key (map cell_key) (records f)\<rparr>)
      else Inl TypeError)"

text \<open>
  \<^verbatim>\<open>pd.testing.assert_frame_equal(left, right, check_dtype=False)\<close>, as pandas 2.2 and
  later define it. The shapes and the column labels must agree. Then the columns are
  compared one by one.

  When one of the two columns is \<^verbatim>\<open>int64\<close> the comparison is exact: integer against
  integer; against a \<^verbatim>\<open>float64\<close> column after the integers have been converted to
  doubles; against Python objects with Python's \<^verbatim>\<open>==\<close>.

  Otherwise the cells are compared one by one: two numbers with
  \<^verbatim>\<open>math.isclose(a, b, rel_tol=1e-5, abs_tol=1e-8)\<close>, which works on doubles; strings and
  BLOBs for equality; a missing value matches a missing value only.

  \<open>True\<close> stands for returning normally, \<open>False\<close> for raising AssertionError.
\<close>

definition rtol :: rat where
  "rtol = float64 (1 / 100000)"

definition atol :: rat where
  "atol = float64 (1 / 100000000)"

definition isclose :: "rat \<Rightarrow> rat \<Rightarrow> bool" where
  "isclose a b =
     (a = b \<or>
      (let diff = \<bar>float64 (b - a)\<bar>
       in diff \<le> \<bar>float64 (rtol * b)\<bar> \<or> diff \<le> \<bar>float64 (rtol * a)\<bar> \<or> diff \<le> atol))"

definition exact_equal :: "dtype \<Rightarrow> dtype \<Rightarrow> cell \<Rightarrow> cell \<Rightarrow> bool" where
  "exact_equal dl dr a b =
     (case (num_of a, num_of b) of
        (Some x, Some y) \<Rightarrow>
          if dl = Float64 \<or> dr = Float64 then float64 x = float64 y else x = y
      | (None, None) \<Rightarrow> a = b
      | _ \<Rightarrow> False)"

definition almost_equal :: "cell \<Rightarrow> cell \<Rightarrow> bool" where
  "almost_equal a b =
     (case (num_of a, num_of b) of
        (Some x, Some y) \<Rightarrow> isclose (float64 x) (float64 y)
      | (None, None) \<Rightarrow> a = b
      | _ \<Rightarrow> False)"

definition cell_equal :: "dtype \<Rightarrow> dtype \<Rightarrow> cell \<Rightarrow> cell \<Rightarrow> bool" where
  "cell_equal dl dr a b =
     (if dl = Int64 \<or> dr = Int64 then exact_equal dl dr a b else almost_equal a b)"

definition assert_series_equal :: "cell list \<Rightarrow> cell list \<Rightarrow> bool" where
  "assert_series_equal l r = list_all2 (cell_equal (dtype_of l) (dtype_of r)) l r"

definition assert_frame_equal :: "frame \<Rightarrow> frame \<Rightarrow> bool" where
  "assert_frame_equal l r =
     (length (records l) = length (records r) \<and> length (columns l) = length (columns r)
      \<and> columns l = columns r
      \<and> list_all2 assert_series_equal (frame_cols l) (frame_cols r))"

text \<open>
  The comparison of a submission with the reference answer (app.py, lines 364 to 382):
  both frames get positional labels, both are sorted, the expected one first, and the
  sorted frames are compared. AssertionError gives a mismatch; any other exception
  means the results could not be compared.
\<close>

datatype verdict = Correct | Mismatch | CannotCompare py_exception

definition verify :: "frame \<Rightarrow> frame \<Rightarrow> verdict" where
  "verify expected_df user_df =
     (case sort_values (renumber expected_df) of
        Inl e \<Rightarrow> CannotCompare e
      | Inr se \<Rightarrow>
          (case sort_values (renumber user_df) of
             Inl e \<Rightarrow> CannotCompare e
           | Inr su \<Rightarrow> if assert_frame_equal se su then Correct else Mismatch))"

section \<open>What the page shows\<close>

text \<open>
  The messages the handlers emit (\<^verbatim>\<open>st.error\<close>, \<^verbatim>\<open>st.warning\<close>, \<^verbatim>\<open>st.toast\<close>,
  \<^verbatim>\<open>st.success\<close>), by kind, with the text the code inserts into them. \<open>ShowResult\<close> is
  the result table of a query: the first ten records and the number of records in the
  caption (the renaming of duplicate column names for display is left out). \<open>Crash\<close> is
  an uncaught exception, which ends the script run.
\<close>

datatype ui =
    ExecError string
  | EnterSqlWarning
  | ReferenceTimeoutWarning
  | ToastCorrect
  | ToastMismatch
  | ToastCannotCompare string
  | SaveHistoryFailed
  | ShowResult "cell list list" nat
  | InitSuccess
  | InitFailed string
  | Crash

section \<open>The history ledger (table USER_HISTORY of review.db)\<close>

text \<open>
  One row of the table created by \<^verbatim>\<open>init_history_table\<close> and \<^verbatim>\<open>init_db\<close> in app.py:
  \<^verbatim>\<open>id INTEGER PRIMARY KEY AUTOINCREMENT, question_id INTEGER, user_sql TEXT,
  is_correct BOOLEAN, error_message TEXT, timestamp DATETIME DEFAULT CURRENT_TIMESTAMP\<close>.
  \<^verbatim>\<open>CURRENT_TIMESTAMP\<close> is the text \<^verbatim>\<open>YYYY-MM-DD HH:MM:SS\<close>, whole seconds, compared
  as text by the engine; it is modelled by the number of seconds it denotes, which
  has the same order.
\<close>

record history_row =
  hid :: nat
  question_id :: int
  user_sql :: string
  is_correct :: bool
  error_message :: "string option"
  timestamp :: nat

text \<open>
  The database file: the ledger table in rowid order (\<open>None\<close> when the table does not
  exist), the AUTOINCREMENT counter the engine keeps for it, and the grading tables,
  whose contents the application never inspects itself.
\<close>

record 'g db =
  USER_HISTORY :: "history_row list option"
  sqlite_sequence :: nat
  grading :: 'g

text \<open>
  \<^verbatim>\<open>CREATE TABLE IF NOT EXISTS USER_HISTORY (...)\<close>: an existing table is left as it is.
\<close>

definition create_history_if_not_exists :: "'g db \<Rightarrow> 'g db" where
  "create_history_if_not_exists d =
     (case USER_HISTORY d of None \<Rightarrow> d\<lparr>USER_HISTORY := Some []\<rparr> | Some rows \<Rightarrow> d)"

definition init_history_table :: "'g db \<Rightarrow> 'g db" where
  "init_history_table d = create_history_if_not_exists d"

text \<open>
  \<^verbatim>\<open>save_history(question_id, user_sql, is_correct, error_message=None)\<close>: one INSERT.
  The engine supplies the id (one more than the largest id ever used) and the
  timestamp (its clock, the argument \<open>now\<close>). When the INSERT raises (the table is
  missing) the exception is caught and reported, and nothing is stored.
\<close>

definition next_id :: "history_row list \<Rightarrow> nat \<Rightarrow> nat" where
  "next_id rows seq = Suc (fold max (map hid rows) seq)"

definition save_history ::
  "nat \<Rightarrow> int \<Rightarrow> string \<Rightarrow> bool \<Rightarrow> string option \<Rightarrow> 'g db \<Rightarrow> 'g db \<times> ui list" where
  "save_history now qid sql ok err d =
     (case USER_HISTORY d of
        None \<Rightarrow> (d, [SaveHistoryFailed])
      | Some rows \<Rightarrow>
          (let i = next_id rows (sqlite_sequence d);
               r = \<lparr>hid = i, question_id = qid, user_sql = sql, is_correct = ok,
                    error_message = err, timestamp = now\<rparr>
           in (d\<lparr>USER_HISTORY := Some (rows @ [r]), sqlite_sequence := i\<rparr>, [])))"

text \<open>
  \<^verbatim>\<open>get_history(question_id)\<close>:
  \<^verbatim>\<open>SELECT user_sql, is_correct, error_message, timestamp FROM USER_HISTORY
  WHERE question_id = ? ORDER BY timestamp DESC\<close>.
  The rows are scanned in rowid order and sorted on the timestamp alone; the engine's
  sorter keeps rows with equal keys in scan order, so the sort is the stable
  \<open>sort_key\<close> on the negated timestamp. An exception (missing table) gives the empty
  frame.
\<close>

type_synonym history_view = "string \<times> bool \<times> string option \<times> nat"

definition view_of :: "history_row \<Rightarrow> history_view" where
  "view_of r = (user_sql r, is_correct r, error_message r, timestamp r)"

definition order_by_timestamp_desc :: "history_row list \<Rightarrow> history_row list" where
  "order_by_timestamp_desc rows = sort_key (\<lambda>r. - int (timestamp r)) rows"

definition get_history :: "int \<Rightarrow> 'g db \<Rightarrow> history_view list" where
  "get_history qid d =
     (case USER_HISTORY d of
        None \<Rightarrow> []
      | Some rows \<Rightarrow>
          map view_of (order_by_timestamp_desc (filter (\<lambda>r. question_id r = qid) rows)))"

text \<open>
  \<^verbatim>\<open>get_solved_questions()\<close>:
  \<^verbatim>\<open>SELECT DISTINCT question_id FROM USER_HISTORY WHERE is_correct = 1\<close>, collected into
  a Python set; the empty set when the query raises.
\<close>

definition get_solved_questions :: "'g db \<Rightarrow> int set" where
  "get_solved_questions d =
     (case USER_HISTORY d of
        None \<Rightarrow> {}
      | Some rows \<Rightarrow> set (remdups (map question_id (filter is_correct rows))))"

section \<open>Running queries\<close>

text \<open>
  The database engine is a parameter of the model. Given the SQL text and the database
  it answers with an error text or the fetched result set, the database as the
  statement leaves it, and the time the statement took in milliseconds; \<open>None\<close> stands
  for a statement that never finishes.
\<close>

type_synonym 'g engine = "string \<Rightarrow> 'g db \<Rightarrow> ((string + frame) \<times> 'g db \<times> nat) option"

text \<open>
  \<^verbatim>\<open>run_query\<close>: \<^verbatim>\<open>(df, None)\<close> with the DataFrame \<^verbatim>\<open>pd.read_sql_query\<close> builds from the
  result set, or \<^verbatim>\<open>(None, str(e))\<close> when the engine raises.
\<close>

definition run_query ::
  "'g engine \<Rightarrow> string \<Rightarrow> 'g db \<Rightarrow> ((frame option \<times> string option) \<times> 'g db \<times> nat) option" where
  "run_query eng query d =
     (case eng query d of
        None \<Rightarrow> None
      | Some (Inr fetched, d', ms) \<Rightarrow> Some ((Some (to_dataframe fetched), None), d', ms)
      | Some (Inl e, d', ms) \<Rightarrow> Some ((None, Some e), d', ms))"

text \<open>
  \<^verbatim>\<open>run_query_with_timeout(query, timeout_seconds=2)\<close>. The query is submitted to a
  \<^verbatim>\<open>ThreadPoolExecutor\<close> opened by a \<^verbatim>\<open>with\<close> statement, and \<^verbatim>\<open>future.result\<close> waits
  for it for \<open>timeout_seconds\<close>. When the wait times out the function evaluates
  \<^verbatim>\<open>return None, "Timeout"\<close> inside the \<^verbatim>\<open>with\<close> block, and leaving the block calls
  \<^verbatim>\<open>executor.shutdown(wait=True)\<close>, which joins the worker thread. So the caller gets
  its answer when the query has finished, whatever the limit, and never when the query
  never finishes. The third component of the result is the time, in milliseconds,
  after which control is back at the caller. (\<^verbatim>\<open>run_query\<close> catches every exception
  itself, so the last \<^verbatim>\<open>except\<close> clause is never entered.)
\<close>

definition run_query_with_timeout ::
  "'g engine \<Rightarrow> string \<Rightarrow> nat \<Rightarrow> 'g db \<Rightarrow>
     ((frame option \<times> string option) \<times> 'g db \<times> nat) option" where
  "run_query_with_timeout eng query timeout_seconds d =
     (case run_query eng query d of
        None \<Rightarrow> None
      | Some (res, d', ms) \<Rightarrow>
          if ms \<le> timeout_seconds * 1000 then Some (res, d', ms)
          else Some ((None, Some ''Timeout''), d', ms))"

section \<open>The run and submit buttons\<close>

record question =
  q_id :: int
  title :: string
  description :: string
  answer_sql :: string

record click =
  run_clicked :: bool
  submit_clicked :: bool
  sql_input :: string

text \<open>\<^verbatim>\<open>str.isspace\<close> on code points below 256, and \<^verbatim>\<open>str.strip()\<close>.\<close>

definition py_isspace :: "char \<Rightarrow> bool" where
  "py_isspace c =
     (let n = (of_char c :: nat)
      in (9 \<le> n \<and> n \<le> 13) \<or> (28 \<le> n \<and> n \<le> 32) \<or> n = 133 \<or> n = 160)"

definition strip :: "string \<Rightarrow> string" where
  "strip s = rev (dropWhile py_isspace (rev (dropWhile py_isspace s)))"

text \<open>
  Lines 357 to 382, run when the submit button was clicked and the learner's query
  gave the frame \<open>user_df\<close>: the reference answer is evaluated under the timeout and
  compared. The result is \<open>is_correct\<close>, \<open>error_msg\<close>, the database and the messages.
  \<open>error\<close> is the error of the learner's query, the initial value of \<open>error_msg\<close>;
  \<open>str\<close> is Python's \<^verbatim>\<open>str\<close> on the exception caught by the last \<^verbatim>\<open>except\<close> clause.
\<close>

definition grade_submission ::
  "'g engine \<Rightarrow> (py_exception \<Rightarrow> string) \<Rightarrow> question \<Rightarrow> frame \<Rightarrow> string option \<Rightarrow> 'g db \<Rightarrow>
     (bool \<times> string option \<times> 'g db \<times> ui list) option" where
  "grade_submission eng str current_q user_df error d =
     (if answer_sql current_q \<noteq> [] then
        (case run_query_with_timeout eng (answer_sql current_q) 2 d of
           None \<Rightarrow> None
         | Some ((expected_df, expected_error), d', ms) \<Rightarrow>
             if expected_error = Some ''Timeout'' then
               Some (False, Some ''Reference answer timeout, validation skipped.'', d',
                     [ReferenceTimeoutWarning])
             else
               (case expected_df of
                  Some edf \<Rightarrow>
                    (case verify edf user_df of
                       Correct \<Rightarrow> Some (True, error, d', [ToastCorrect])
                     | Mismatch \<Rightarrow> Some (False, Some ''Result mismatch'', d', [ToastMismatch])
                     | CannotCompare e \<Rightarrow>
                         Some (False, Some (str e), d', [ToastCannotCompare (str e)]))
                | None \<Rightarrow> Some (False, error, d', [])))
      else Some (False, error, d, []))"

text \<open>
  Lines 321 to 388: what a click on the run or the submit button does, given the
  text in the editor. \<open>now\<close> is the engine's clock at the moment of the INSERT. An
  error text that is empty is falsy in Python, so the code goes on to use the frame,
  which is \<^verbatim>\<open>None\<close>: AttributeError, uncaught.
\<close>

definition on_click ::
  "'g engine \<Rightarrow> (py_exception \<Rightarrow> string) \<Rightarrow> nat \<Rightarrow> question \<Rightarrow> click \<Rightarrow> 'g db \<Rightarrow>
     ('g db \<times> ui list) option" where
  "on_click eng str now current_q c d =
     (if run_clicked c \<or> submit_clicked c then
        if strip (sql_input c) \<noteq> [] then
          (case run_query eng (sql_input c) d of
             None \<Rightarrow> None
           | Some ((user_df, error), d1, ms) \<Rightarrow>
               if error \<noteq> None \<and> error \<noteq> Some [] then Some (d1, [ExecError (the error)])
               else
                 (case user_df of
                    None \<Rightarrow> Some (d1, [Crash])
                  | Some df \<Rightarrow>
                      (let shown = ShowResult (take 10 (records df)) (length (records df))
                       in if submit_clicked c then
                            (case grade_submission eng str current_q df error d1 of
                               None \<Rightarrow> None
                             | Some (ok, error_msg, d2, msgs) \<Rightarrow>
                                 (case save_history now (q_id current_q) (sql_input c) ok error_msg d2 of
                                    (d3, msgs') \<Rightarrow> Some (d3, shown # msgs @ msgs')))
                          else Some (d1, [shown]))))
        else Some (d, [EnterSqlWarning])
      else Some (d, []))"

section \<open>Seeding the grading tables\<close>

text \<open>
  The two substitutions \<^verbatim>\<open>init_db\<close> applies to a seed file before running it,
  \<^verbatim>\<open>re.sub(r'use\s+school\s*;', '', content, flags=re.IGNORECASE)\<close> and
  \<^verbatim>\<open>re.sub(r'drop\s+table\s+(\w+);', r'DROP TABLE IF EXISTS \1;', content, flags=re.IGNORECASE)\<close>.
  Neither pattern leaves the matcher a choice: a run of \<^verbatim>\<open>\s\<close> or \<^verbatim>\<open>\w\<close> is followed by a
  character outside the run's class, so the greedy run is the only one that can match.
\<close>

definition lower :: "char \<Rightarrow> char" where
  "lower c =
     (let n = (of_char c :: nat) in if 65 \<le> n \<and> n \<le> 90 then char_of (n + 32) else c)"

definition py_isword :: "char \<Rightarrow> bool" where
  "py_isword c =
     (let n = (of_char c :: nat)
      in (48 \<le> n \<and> n \<le> 57) \<or> (65 \<le> n \<and> n \<le> 90) \<or> (97 \<le> n \<and> n \<le> 122) \<or> n = 95
         \<or> n = 170 \<or> n = 178 \<or> n = 179 \<or> n = 181 \<or> n = 185 \<or> n = 186
         \<or> (188 \<le> n \<and> n \<le> 190) \<or> (192 \<le> n \<and> n \<le> 214) \<or> (216 \<le> n \<and> n \<le> 246)
         \<or> (248 \<le> n \<and> n \<le> 255))"

text \<open>A literal of the pattern, written in lower case, at the start of the text.\<close>

fun match_literal :: "string \<Rightarrow> string \<Rightarrow> string option" where
  "match_literal [] s = Some s"
| "match_literal (p # ps) [] = None"
| "match_literal (p # ps) (c # cs) = (if lower c = p then match_literal ps cs else None)"

text \<open>One or more characters of a class: the run and what follows it.\<close>

definition match_run :: "(char \<Rightarrow> bool) \<Rightarrow> string \<Rightarrow> (string \<times> string) option" where
  "match_run cls s =
     (if takeWhile cls s = [] then None else Some (takeWhile cls s, dropWhile cls s))"

text \<open>
  A match of a pattern at the start of the text: the replacement and the number of
  characters the match takes.
\<close>

definition match_use_school :: "string \<Rightarrow> (string \<times> nat) option" where
  "match_use_school s =
     (case match_literal ''use'' s of
        None \<Rightarrow> None
      | Some s1 \<Rightarrow>
          (case match_run py_isspace s1 of
             None \<Rightarrow> None
           | Some (ws, s2) \<Rightarrow>
               (case match_literal ''school'' s2 of
                  None \<Rightarrow> None
                | Some s3 \<Rightarrow>
                    (case dropWhile py_isspace s3 of
                       [] \<Rightarrow> None
                     | c # rest \<Rightarrow>
                         if c = CHR '';'' then Some ([], length s - length rest) else None))))"

definition match_drop_table :: "string \<Rightarrow> (string \<times> nat) option" where
  "match_drop_table s =
     (case match_literal ''drop'' s of
        None \<Rightarrow> None
      | Some s1 \<Rightarrow>
          (case match_run py_isspace s1 of
             None \<Rightarrow> None
           | Some (ws, s2) \<Rightarrow>
               (case match_literal ''table'' s2 of
                  None \<Rightarrow> None
                | Some s3 \<Rightarrow>
                    (case match_run py_isspace s3 of
                       None \<Rightarrow> None
                     | Some (ws', s4) \<Rightarrow>
                         (case match_run py_isword s4 of
                            None \<Rightarrow> None
                          | Some (name, s5) \<Rightarrow>
                              (case s5 of
                                 [] \<Rightarrow> None
                               | c # rest \<Rightarrow>
                                   if c = CHR '';''
                                   then Some (''DROP TABLE IF EXISTS '' @ name @ '';'',
                                              length s - length rest)
                                   else None))))))"

text \<open>
  \<^verbatim>\<open>re.sub\<close>: the text is scanned from the left; where the pattern matches, the
  replacement is written and the scan goes on behind the match (\<open>skip\<close> counts the
  characters of the match still to pass); elsewhere the character is copied.
\<close>

fun re_sub :: "(string \<Rightarrow> (string \<times> nat) option) \<Rightarrow> nat \<Rightarrow> string \<Rightarrow> string" where
  "re_sub m skip [] = []"
| "re_sub m skip (c # cs) =
     (if 0 < skip then re_sub m (skip - 1) cs
      else (case m (c # cs) of
              None \<Rightarrow> c # re_sub m 0 cs
            | Some (repl, n) \<Rightarrow> repl @ re_sub m (n - 1) cs))"

definition preprocess :: "string \<Rightarrow> string" where
  "preprocess content = re_sub match_drop_table 0 (re_sub match_use_school 0 content)"

text \<open>
  The seed files are not part of the sources; the file system is a parameter: the
  decoded content of a path, \<open>None\<close> when \<^verbatim>\<open>os.path.exists\<close> is false. So is
  \<^verbatim>\<open>cursor.executescript\<close> followed by \<^verbatim>\<open>conn.commit()\<close>: the text of the exception when
  it raises, and the database it leaves.
\<close>

definition SQL_DIR :: string where
  "SQL_DIR = ''school''"

definition SQL_FILES :: "string list" where
  "SQL_FILES = [''STUDENTS.sql'', ''TEACHERS.sql'', ''COURSES.sql'', ''CHOICES.sql'']"

definition path_join :: "string \<Rightarrow> string \<Rightarrow> string" where
  "path_join dir name = dir @ ''/'' @ name"

type_synonym 'g executescript = "string \<Rightarrow> 'g db \<Rightarrow> string option \<times> 'g db"

text \<open>
  The loop over \<^verbatim>\<open>SQL_FILES\<close>, shared by both \<^verbatim>\<open>init_db\<close>: a missing file is passed
  over, the first exception ends the loop.
\<close>

fun run_seed_files ::
  "'g executescript \<Rightarrow> (string \<Rightarrow> string option) \<Rightarrow> string list \<Rightarrow> 'g db \<Rightarrow> string option \<times> 'g db" where
  "run_seed_files ex fs [] d = (None, d)"
| "run_seed_files ex fs (sql_file # rest) d =
     (case fs (path_join SQL_DIR sql_file) of
        None \<Rightarrow> run_seed_files ex fs rest d
      | Some content \<Rightarrow>
          (case ex (preprocess content) d of
             (Some e, d') \<Rightarrow> (Some e, d')
           | (None, d') \<Rightarrow> run_seed_files ex fs rest d'))"

text \<open>
  \<^verbatim>\<open>init_db\<close> of app.py: the foreign-key pragma (a setting of the connection, not of
  the stored data), \<^verbatim>\<open>CREATE TABLE IF NOT EXISTS USER_HISTORY\<close>, then the seed files.
\<close>

definition init_db ::
  "'g executescript \<Rightarrow> (string \<Rightarrow> string option) \<Rightarrow> 'g db \<Rightarrow> 'g db \<times> ui list" where
  "init_db ex fs d =
     (case run_seed_files ex fs SQL_FILES (create_history_if_not_exists d) of
        (None, d') \<Rightarrow> (d', [InitSuccess])
      | (Some e, d') \<Rightarrow> (d', [InitFailed e]))"

text \<open>\<^verbatim>\<open>init_db\<close> of reset_db.py: the pragma and the seed files only.\<close>

definition reset_db_init_db ::
  "'g executescript \<Rightarrow> (string \<Rightarrow> string option) \<Rightarrow> 'g db \<Rightarrow> 'g db \<times> ui list" where
  "reset_db_init_db ex fs d =
     (case run_seed_files ex fs SQL_FILES d of
        (None, d') \<Rightarrow> (d', [InitSuccess])
      | (Some e, d') \<Rightarrow> (d', [InitFailed e]))"

section \<open>Navigation between questions (session state)\<close>

text \<open>
  \<^verbatim>\<open>st.session_state.current_index\<close> is a Python integer, absent in a fresh session.
  \<open>question_titles\<close> has one entry per loaded question (app.py, lines 249 to 252), so
  its length is \<^verbatim>\<open>len(questions)\<close>.
\<close>

text \<open>Lines 240 to 245: a missing index becomes 0, an index at or above the length becomes 0.\<close>

definition ensure_valid_index :: "string list \<Rightarrow> int option \<Rightarrow> int" where
  "ensure_valid_index question_titles s =
     (let i = (case s of None \<Rightarrow> 0 | Some i \<Rightarrow> i)
      in if i \<ge> int (length question_titles) then 0 else i)"

definition prev_question :: "int \<Rightarrow> int" where
  "prev_question i = (if i > 0 then i - 1 else i)"

definition next_question :: "string list \<Rightarrow> int \<Rightarrow> int" where
  "next_question question_titles i =
     (if i < int (length question_titles) - 1 then i + 1 else i)"

text \<open>\<^verbatim>\<open>list.index\<close>: the first position holding the value; ValueError when there is none.\<close>

fun index_of :: "'a list \<Rightarrow> 'a \<Rightarrow> nat option" where
  "index_of [] y = None"
| "index_of (x # xs) y = (if x = y then Some 0 else map_option Suc (index_of xs y))"

text \<open>
  \<^verbatim>\<open>update_index\<close>: the index of the selected title. When \<^verbatim>\<open>index\<close> raises, the
  assignment does not happen and the stored index stays.
\<close>

definition update_index :: "string list \<Rightarrow> string \<Rightarrow> int \<Rightarrow> int" where
  "update_index question_titles selected i =
     (case index_of question_titles selected of None \<Rightarrow> i | Some k \<Rightarrow> int k)"

datatype nav_event = Prev | Next | Select string | Rerun

fun callback :: "string list \<Rightarrow> nav_event \<Rightarrow> int \<Rightarrow> int" where
  "callback question_titles Prev i = prev_question i"
| "callback question_titles Next i = next_question question_titles i"
| "callback question_titles (Select t) i = update_index question_titles t i"
| "callback question_titles Rerun i = i"

text \<open>
  A session: every script run first validates the index; the widget callback of the
  next interaction then runs on the validated index, and the script runs again.
\<close>

fun navigate :: "string list \<Rightarrow> int option \<Rightarrow> nav_event list \<Rightarrow> int" where
  "navigate question_titles s [] = ensure_valid_index question_titles s"
| "navigate question_titles s (e # es) =
     navigate question_titles
       (Some (callback question_titles e (ensure_valid_index question_titles s))) es"

section \<open>Properties of the comparison\<close>

lemma sort_map_key: "sort (map f xs) = map f (sort_key f xs)"
  by (rule properties_for_sort) simp_all

lemma keys_of_sorted_perm:
  assumes "mset xs = mset ys"
  shows "map f (sort_key f xs) = map f (sort_key f ys)"
proof -
  have "mset (map f xs) = mset (map f ys)" using assms by (metis mset_map)
  then have "sort (map f xs) = sort (map f ys)"
    by (intro properties_for_sort) simp_all
  then show ?thesis by (simp add: sort_map_key)
qed

lemma isclose_refl: "isclose x x"
  by (simp add: isclose_def)

lemma cell_key_cell_equal: "cell_key a = cell_key b \<Longrightarrow> cell_equal dl dr a b"
  by (cases a; cases b)
     (simp_all add: cell_equal_def exact_equal_def almost_equal_def isclose_refl)

lemma series_equal_of_keys:
  assumes "list_all2 (\<lambda>a b. cell_key a = cell_key b) l r"
  shows "assert_series_equal l r"
  unfolding assert_series_equal_def
  using assms by (rule list_all2_mono) (rule cell_key_cell_equal)

lemma one_kind_set:
  "one_kind (map g rs) =
     (\<not> ((\<exists>r \<in> set rs. is_text (g r)) \<and> (\<exists>r \<in> set rs. is_number (g r)))
      \<and> \<not> ((\<exists>r \<in> set rs. is_blob (g r)) \<and> (\<exists>r \<in> set rs. is_number (g r)))
      \<and> \<not> ((\<exists>r \<in> set rs. is_blob (g r)) \<and> (\<exists>r \<in> set rs. is_text (g r))))"
  by (simp add: one_kind_def list_ex_iff)

lemma no_blob_with_number_set:
  "no_blob_with_number (map g rs) =
     (\<not> ((\<exists>r \<in> set rs. is_blob (g r)) \<and> (\<exists>r \<in> set rs. is_number (g r))))"
  by (simp add: no_blob_with_number_def list_ex_iff)

lemma dtype_of_set:
  "dtype_of (map g rs) =
     (if rs \<noteq> [] \<and> (\<forall>r \<in> set rs. is_integer (g r)) then Int64
      else if (\<exists>r \<in> set rs. is_number (g r)) \<and> (\<forall>r \<in> set rs. is_number (g r) \<or> g r = NULL)
      then Float64 else Object)"
  by (simp add: dtype_of_def list_ex_iff list_all_iff)

lemma dtype_of_cong:
  assumes "set rs = set rs'"
  shows "dtype_of (map g rs) = dtype_of (map g rs')"
proof -
  have "(rs = []) = (rs' = [])"
    using assms by (metis set_empty)
  with assms show ?thesis
    by (simp add: dtype_of_set)
qed

lemma can_sort_cong:
  assumes "set (records e) = set (records a)" "length (columns e) = length (columns a)"
  shows "can_sort e = can_sort a"
  using assms
  by (simp add: can_sort_def frame_cols_def list_all_iff one_kind_set no_blob_with_number_set)

lemma can_sort_renumber: "can_sort (renumber f) = can_sort f"
  by (simp add: can_sort_def renumber_def frame_cols_def)

lemma sort_values_renumber:
  "can_sort f \<Longrightarrow>
   sort_values (renumber f) =
     Inr \<lparr>columns = map Pos [0..<length (columns f)],
          records = sort_key (map cell_key) (records f)\<rparr>"
  by (simp add: sort_values_def can_sort_renumber) (simp add: renumber_def)

lemma verify_sortable:
  assumes "can_sort e" "can_sort a"
  shows "verify e a =
     (if assert_frame_equal
           \<lparr>columns = map Pos [0..<length (columns e)],
            records = sort_key (map cell_key) (records e)\<rparr>
           \<lparr>columns = map Pos [0..<length (columns a)],
            records = sort_key (map cell_key) (records a)\<rparr>
      then Correct else Mismatch)"
  using assms by (simp add: verify_def sort_values_renumber)

text \<open>Two DataFrames with the same records up to their order.\<close>

lemma verify_permuted_frames:
  assumes wfe: "wf_frame e" and wfa: "wf_frame a"
    and cols: "length (columns e) = length (columns a)"
    and perm: "mset (records e) = mset (records a)"
    and sortable: "can_sort e"
  shows "verify e a = Correct"
proof -
  let ?K = "map cell_key"
  let ?xs = "sort_key ?K (records e)" and ?ys = "sort_key ?K (records a)"
  let ?k = "length (columns e)"
  have sets: "set (records e) = set (records a)"
    using perm by (rule mset_eq_setD)
  have sortable_a: "can_sort a"
    using sortable can_sort_cong [OF sets cols] by simp
  have "length (records e) = length (records a)"
    using perm by (rule mset_eq_length)
  then have len: "length ?xs = length ?ys"
    by simp
  have keys: "map ?K ?xs = map ?K ?ys"
    using perm by (rule keys_of_sorted_perm)
  have lens_e: "length r = ?k" if "r \<in> set ?xs" for r
    using wfe that by (simp add: wf_frame_def list_all_iff)
  have lens_a: "length r = ?k" if "r \<in> set ?ys" for r
    using wfa cols that by (simp add: wf_frame_def list_all_iff)
  have cellkeys: "cell_key (?xs ! i ! j) = cell_key (?ys ! i ! j)"
    if "i < length ?xs" "j < ?k" for i j
  proof -
    have "?K (?xs ! i) = ?K (?ys ! i)"
      using keys that(1) len by (metis nth_map)
    moreover have "length (?xs ! i) = ?k"
      using that(1) by (intro lens_e nth_mem)
    moreover have "length (?ys ! i) = ?k"
      using that(1) len by (intro lens_a nth_mem) simp
    ultimately show ?thesis
      using that(2) by (metis nth_map)
  qed
  have col: "assert_series_equal (map (\<lambda>r. r ! j) ?xs) (map (\<lambda>r. r ! j) ?ys)" if "j < ?k" for j
  proof (rule series_equal_of_keys)
    show "list_all2 (\<lambda>a b. cell_key a = cell_key b) (map (\<lambda>r. r ! j) ?xs) (map (\<lambda>r. r ! j) ?ys)"
      using len cellkeys that by (simp add: list_all2_conv_all_nth)
  qed
  have "assert_frame_equal
           \<lparr>columns = map Pos [0..<length (columns e)], records = ?xs\<rparr>
           \<lparr>columns = map Pos [0..<length (columns a)], records = ?ys\<rparr>"
    using len cols col
    by (simp add: assert_frame_equal_def frame_cols_def list_all2_conv_all_nth)
  then show ?thesis
    by (simp add: verify_sortable [OF sortable sortable_a])
qed

text \<open>What \<open>to_dataframe\<close> does to a rectangular result set.\<close>

lemma convert_row_length:
  "length r = length ds \<Longrightarrow> length (convert_row ds r) = length ds"
  by (simp add: convert_row_def)

lemma convert_row_nth:
  "length r = length ds \<Longrightarrow> j < length ds \<Longrightarrow>
   convert_row ds r ! j = (if ds ! j = Float64 then as_float64 (r ! j) else r ! j)"
  by (simp add: convert_row_def)

lemma columns_to_dataframe [simp]: "columns (to_dataframe f) = columns f"
  by (simp add: to_dataframe_def)

lemma length_records_to_dataframe [simp]:
  "length (records (to_dataframe f)) = length (records f)"
  by (simp add: to_dataframe_def)

lemma wf_to_dataframe: "wf_frame f \<Longrightarrow> wf_frame (to_dataframe f)"
  by (simp add: wf_frame_def to_dataframe_def list_all_iff frame_cols_def convert_row_length)

lemma dtypes_cong:
  assumes "set (records e) = set (records a)" "length (columns e) = length (columns a)"
  shows "map dtype_of (frame_cols e) = map dtype_of (frame_cols a)"
  using assms by (simp add: frame_cols_def dtype_of_cong [of "records e" "records a"])

lemma is_kind_as_float64 [simp]:
  "is_text (as_float64 c) = is_text c"
  "is_blob (as_float64 c) = is_blob c"
  "is_number (as_float64 c) = is_number c"
  by (cases c; simp add: is_number_def)+

lemma frame_cols_to_dataframe:
  "frame_cols (to_dataframe f) =
     map (\<lambda>j. map (\<lambda>r. convert_row (map dtype_of (frame_cols f)) r ! j) (records f))
       [0..<length (columns f)]"
  by (simp add: frame_cols_def to_dataframe_def o_def)

lemma list_all_map_upt_cong:
  "(\<And>j. j < k \<Longrightarrow> P (g j) = P (h j)) \<Longrightarrow>
   list_all P (map g [0..<k]) = list_all P (map h [0..<k])"
  by (simp add: list_all_iff)

lemma can_sort_to_dataframe:
  assumes "wf_frame f"
  shows "can_sort (to_dataframe f) = can_sort f"
proof -
  define ds where "ds = map dtype_of (frame_cols f)"
  define k where "k = length (columns f)"
  have len: "length ds = k"
    by (simp add: ds_def k_def frame_cols_def)
  have rows: "length r = length ds" if "r \<in> set (records f)" for r
    using assms that len by (simp add: wf_frame_def list_all_iff k_def)
  have kind: "is_text (convert_row ds r ! j) = is_text (r ! j)
            \<and> is_blob (convert_row ds r ! j) = is_blob (r ! j)
            \<and> is_number (convert_row ds r ! j) = is_number (r ! j)"
    if "r \<in> set (records f)" "j < k" for r j
  proof -
    have "j < length ds" using that(2) len by simp
    then show ?thesis
      using convert_row_nth [OF rows [OF that(1)], of j] by simp
  qed
  have one: "one_kind (map (\<lambda>r. convert_row ds r ! j) (records f))
           = one_kind (map (\<lambda>r. r ! j) (records f))" if "j < k" for j
    using kind that by (simp add: one_kind_set)
  have nob: "no_blob_with_number (map (\<lambda>r. convert_row ds r ! j) (records f))
           = no_blob_with_number (map (\<lambda>r. r ! j) (records f))" if "j < k" for j
    using kind that by (simp add: no_blob_with_number_set)
  have E: "frame_cols (to_dataframe f) =
             map (\<lambda>j. map (\<lambda>r. convert_row ds r ! j) (records f)) [0..<k]"
    by (simp add: frame_cols_to_dataframe ds_def k_def)
  have F: "frame_cols f = map (\<lambda>j. map (\<lambda>r. r ! j) (records f)) [0..<k]"
    by (simp add: frame_cols_def k_def)
  have "list_all one_kind (frame_cols (to_dataframe f)) = list_all one_kind (frame_cols f)"
    unfolding E F by (rule list_all_map_upt_cong) (rule one)
  moreover
  have "list_all no_blob_with_number (frame_cols (to_dataframe f))
      = list_all no_blob_with_number (frame_cols f)"
    unfolding E F by (rule list_all_map_upt_cong) (rule nob)
  ultimately show ?thesis
    by (simp add: can_sort_def)
qed

text \<open>
  Claim C1, as the code has it. Two result sets with the same number of columns and
  the same records up to their order, which pandas can sort, are judged correct,
  whatever their column names: \<open>grade_submission\<close> turns the verdict \<open>Correct\<close> into
  \<open>is_correct = True\<close>. Records are compared as multisets, so a record that occurs twice
  on one side occurs twice on the other. The sort fails only for a single column
  holding values of two of the kinds number, string and BLOB, and for several columns
  of which one holds both a BLOB and a number.
\<close>

theorem verify_accepts_permuted_rows:
  assumes wfe: "wf_frame e" and wfa: "wf_frame a"
    and cols: "length (columns e) = length (columns a)"
    and perm: "mset (records e) = mset (records a)"
    and sortable: "can_sort e"
  shows "verify (to_dataframe e) (to_dataframe a) = Correct"
proof (rule verify_permuted_frames)
  show "wf_frame (to_dataframe e)" "wf_frame (to_dataframe a)"
    using wfe wfa by (simp_all add: wf_to_dataframe)
  show "length (columns (to_dataframe e)) = length (columns (to_dataframe a))"
    using cols by simp
  have sets: "set (records e) = set (records a)"
    using perm by (rule mset_eq_setD)
  have "map dtype_of (frame_cols e) = map dtype_of (frame_cols a)"
    using sets cols by (rule dtypes_cong)
  then show "mset (records (to_dataframe e)) = mset (records (to_dataframe a))"
    using perm by (simp add: to_dataframe_def)
  show "can_sort (to_dataframe e)"
    using sortable wfe by (simp add: can_sort_to_dataframe)
qed

theorem verify_accepts_permuted_rows_witness:
  "verify
     (to_dataframe \<lparr>columns = [Name ''sid'', Name ''name''],
        records = [[INTEGER 1, TEXT ''x''], [INTEGER 2, NULL], [INTEGER 1, TEXT ''a'']]\<rparr>)
     (to_dataframe \<lparr>columns = [Name ''id'', Name ''n''],
        records = [[INTEGER 2, NULL], [INTEGER 1, TEXT ''a''], [INTEGER 1, TEXT ''x'']]\<rparr>)
   = Correct"
  by (rule verify_accepts_permuted_rows)
     (simp_all add: wf_frame_def can_sort_def frame_cols_def no_blob_with_number_def)

text \<open>
  Claim C1 as stated fails where the only column holds both a number and a string: the
  two result sets below have the same records, and sorting raises TypeError, which the
  handler reports as a result that could not be compared, with \<open>is_correct = False\<close>.
\<close>

theorem verify_mixed_column_counterexample:
  "wf_frame \<lparr>columns = [Name ''v''], records = [[INTEGER 1], [TEXT ''a'']]\<rparr>
   \<and> wf_frame \<lparr>columns = [Name ''w''], records = [[TEXT ''a''], [INTEGER 1]]\<rparr>
   \<and> length [Name ''v''] = length [Name ''w'']
   \<and> mset [[INTEGER 1], [TEXT ''a'']] = mset [[TEXT ''a''], [INTEGER 1]]
   \<and> verify (to_dataframe \<lparr>columns = [Name ''v''], records = [[INTEGER 1], [TEXT ''a'']]\<rparr>)
             (to_dataframe \<lparr>columns = [Name ''w''], records = [[TEXT ''a''], [INTEGER 1]]\<rparr>)
       = CannotCompare TypeError"
  by (simp add: wf_frame_def verify_def sort_values_def can_sort_def renumber_def frame_cols_def
      one_kind_def is_number_def to_dataframe_def dtype_of_def convert_row_def)

text \<open>What the comparison of two cells comes to, case by case.\<close>

lemma cell_equal_integers:
  "cell_equal Int64 Int64 (INTEGER m) (INTEGER n) \<longleftrightarrow> m = n"
  by (simp add: cell_equal_def exact_equal_def)

lemma cell_equal_integer_float:
  "cell_equal Int64 Float64 (INTEGER m) (REAL y) \<longleftrightarrow> float64 (of_int m) = float64 y"
  by (simp add: cell_equal_def exact_equal_def)

lemma cell_equal_floats:
  "cell_equal Float64 Float64 (REAL x) (REAL y) \<longleftrightarrow> isclose (float64 x) (float64 y)"
  by (simp add: cell_equal_def almost_equal_def)

lemma cell_equal_text:
  "cell_equal dl dr (TEXT s) (TEXT t) \<longleftrightarrow> s = t"
  by (simp add: cell_equal_def exact_equal_def almost_equal_def)

lemma cell_equal_blob:
  "cell_equal dl dr (BLOB s) (BLOB t) \<longleftrightarrow> s = t"
  by (simp add: cell_equal_def exact_equal_def almost_equal_def)

lemma cell_equal_missing:
  "cell_equal dl dr NULL b \<longleftrightarrow> b = NULL"
  "cell_equal dl dr a NULL \<longleftrightarrow> a = NULL"
  by (cases b; cases a; auto simp: cell_equal_def exact_equal_def almost_equal_def)+

lemma cell_equal_kinds:
  "cell_equal dl dr a b \<Longrightarrow>
   is_number a = is_number b \<and> is_text a = is_text b \<and> is_blob a = is_blob b"
  by (cases a; cases b)
     (auto simp: cell_equal_def exact_equal_def almost_equal_def is_number_def split: if_splits)

lemma frame_cols_nth:
  "j < length (columns f) \<Longrightarrow> frame_cols f ! j = map (\<lambda>r. r ! j) (records f)"
  by (simp add: frame_cols_def)

lemma dtype_of_sorted_column:
  "dtype_of (map g (sort_key h rs)) = dtype_of (map g rs)"
  by (rule dtype_of_cong) simp

lemma sorted_frames_equal_iff:
  assumes n: "length xs = length ys" and k: "length ce = length ca"
  shows "assert_frame_equal
           \<lparr>columns = map Pos [0..<length ce], records = sort_key (map cell_key) xs\<rparr>
           \<lparr>columns = map Pos [0..<length ca], records = sort_key (map cell_key) ys\<rparr>
     \<longleftrightarrow> (\<forall>j < length ce. \<forall>i < length xs.
            cell_equal (dtype_of (map (\<lambda>r. r ! j) xs)) (dtype_of (map (\<lambda>r. r ! j) ys))
              (sort_key (map cell_key) xs ! i ! j) (sort_key (map cell_key) ys ! i ! j))"
  using n k
  by (simp add: assert_frame_equal_def frame_cols_def list_all2_conv_all_nth
      assert_series_equal_def dtype_of_sorted_column)

lemma verify_differing_frames:
  assumes sortable_e: "can_sort e" and sortable_a: "can_sort a"
    and same_rows: "length (records e) = length (records a)"
    and same_cols: "length (columns e) = length (columns a)"
    and i: "i < length (records e)" and j: "j < length (columns e)"
    and diff: "\<not> cell_equal (dtype_of (frame_cols e ! j)) (dtype_of (frame_cols a ! j))
                 (sort_key (map cell_key) (records e) ! i ! j)
                 (sort_key (map cell_key) (records a) ! i ! j)"
  shows "verify e a = Mismatch"
proof -
  have "\<not> (\<forall>j < length (columns e). \<forall>i < length (records e).
            cell_equal (dtype_of (map (\<lambda>r. r ! j) (records e)))
              (dtype_of (map (\<lambda>r. r ! j) (records a)))
              (sort_key (map cell_key) (records e) ! i ! j)
              (sort_key (map cell_key) (records a) ! i ! j))"
    using diff i j same_cols by (auto simp: frame_cols_nth)
  then show ?thesis
    by (simp add: verify_sortable [OF sortable_e sortable_a]
        sorted_frames_equal_iff [OF same_rows same_cols])
qed

lemma verify_mismatch_frames:
  assumes sortable_e: "can_sort e" and sortable_a: "can_sort a"
    and same_rows: "length (records e) = length (records a)"
    and same_cols: "length (columns e) = length (columns a)"
    and mismatch: "verify e a = Mismatch"
  shows "\<exists>j < length (columns e). \<exists>i < length (records e).
           \<not> cell_equal (dtype_of (frame_cols e ! j)) (dtype_of (frame_cols a ! j))
                 (sort_key (map cell_key) (records e) ! i ! j)
                 (sort_key (map cell_key) (records a) ! i ! j)"
proof -
  have "\<not> (\<forall>j < length (columns e). \<forall>i < length (records e).
            cell_equal (dtype_of (map (\<lambda>r. r ! j) (records e)))
              (dtype_of (map (\<lambda>r. r ! j) (records a)))
              (sort_key (map cell_key) (records e) ! i ! j)
              (sort_key (map cell_key) (records a) ! i ! j))"
    using mismatch
    by (simp add: verify_sortable [OF sortable_e sortable_a]
        sorted_frames_equal_iff [OF same_rows same_cols] split: if_splits)
  then obtain j i where j: "j < length (columns e)" and i: "i < length (records e)"
    and d: "\<not> cell_equal (dtype_of (map (\<lambda>r. r ! j) (records e)))
              (dtype_of (map (\<lambda>r. r ! j) (records a)))
              (sort_key (map cell_key) (records e) ! i ! j)
              (sort_key (map cell_key) (records a) ! i ! j)"
    by blast
  have "frame_cols e ! j = map (\<lambda>r. r ! j) (records e)"
    using j by (rule frame_cols_nth)
  moreover have "frame_cols a ! j = map (\<lambda>r. r ! j) (records a)"
    using j same_cols by (intro frame_cols_nth) simp
  ultimately have "\<not> cell_equal (dtype_of (frame_cols e ! j)) (dtype_of (frame_cols a ! j))
                 (sort_key (map cell_key) (records e) ! i ! j)
                 (sort_key (map cell_key) (records a) ! i ! j)"
    using d by simp
  with j i show ?thesis by blast
qed

text \<open>
  Claim C2, as the code has it. Take two result sets of the same shape that pandas can
  sort. If, after sorting, some position holds two cells that the comparison of their
  columns rejects, the verdict is \<open>Mismatch\<close>, which \<open>grade_submission\<close> turns into
  \<open>is_correct = False\<close> with the message \<^verbatim>\<open>Result mismatch\<close>. The comparison \<open>cell_equal\<close>
  rejects different strings, different BLOBs, a missing value against a present one,
  values of different kinds, different integers in two integer columns, an integer
  and a float that differ after the integer has been converted to a double, and, where
  neither column is an integer column, two numbers that \<open>isclose\<close> rejects. By
  \<open>verify_mismatch_frames\<close> nothing else gives \<open>Mismatch\<close> for frames of the same shape.
\<close>

theorem verify_rejects_differing_cell:
  assumes wfe: "wf_frame e" and wfa: "wf_frame a"
    and same_rows: "length (records e) = length (records a)"
    and same_cols: "length (columns e) = length (columns a)"
    and sortable_e: "can_sort e" and sortable_a: "can_sort a"
    and i: "i < length (records e)" and j: "j < length (columns e)"
    and diff: "\<not> cell_equal (dtype_of (frame_cols (to_dataframe e) ! j))
                               (dtype_of (frame_cols (to_dataframe a) ! j))
                 (sort_key (map cell_key) (records (to_dataframe e)) ! i ! j)
                 (sort_key (map cell_key) (records (to_dataframe a)) ! i ! j)"
  shows "verify (to_dataframe e) (to_dataframe a) = Mismatch"
proof (rule verify_differing_frames [where i = i and j = j])
  show "can_sort (to_dataframe e)" "can_sort (to_dataframe a)"
    using sortable_e sortable_a wfe wfa by (simp_all add: can_sort_to_dataframe)
  show "length (records (to_dataframe e)) = length (records (to_dataframe a))"
    using same_rows by simp
  show "length (columns (to_dataframe e)) = length (columns (to_dataframe a))"
    using same_cols by simp
  show "i < length (records (to_dataframe e))" "j < length (columns (to_dataframe e))"
    using i j by simp_all
  show "\<not> cell_equal (dtype_of (frame_cols (to_dataframe e) ! j))
                               (dtype_of (frame_cols (to_dataframe a) ! j))
                 (sort_key (map cell_key) (records (to_dataframe e)) ! i ! j)
                 (sort_key (map cell_key) (records (to_dataframe a)) ! i ! j)"
    by (rule diff)
qed

theorem verify_rejects_differing_cell_witness:
  "verify
     (to_dataframe \<lparr>columns = [Name ''sid'', Name ''credit''],
                    records = [[INTEGER 2, INTEGER 100001], [INTEGER 1, INTEGER 7]]\<rparr>)
     (to_dataframe \<lparr>columns = [Name ''sid'', Name ''credit''],
                    records = [[INTEGER 1, INTEGER 7], [INTEGER 2, INTEGER 100000]]\<rparr>)
   = Mismatch"
proof -
  let ?e = "\<lparr>columns = [Name ''sid'', Name ''credit''],
             records = [[INTEGER 2, INTEGER 100001], [INTEGER 1, INTEGER 7]]\<rparr>"
  let ?a = "\<lparr>columns = [Name ''sid'', Name ''credit''],
             records = [[INTEGER 1, INTEGER 7], [INTEGER 2, INTEGER 100000]]\<rparr>"
  have de: "to_dataframe ?e = ?e" and da: "to_dataframe ?a = ?a"
    by (simp_all add: to_dataframe_def frame_cols_def dtype_of_def convert_row_def)
  have s1: "sort_key (map cell_key) [[INTEGER 2, INTEGER 100001], [INTEGER 1, INTEGER 7]]
              = [[INTEGER 1, INTEGER 7], [INTEGER 2, INTEGER 100001]]"
    by code_simp
  have s2: "sort_key (map cell_key) [[INTEGER 1, INTEGER 7], [INTEGER 2, INTEGER 100000]]
              = [[INTEGER 1, INTEGER 7], [INTEGER 2, INTEGER 100000]]"
    by code_simp
  show ?thesis
    by (rule verify_rejects_differing_cell [where i = 1 and j = 1])
       (simp_all add: de da s1 s2 wf_frame_def can_sort_def no_blob_with_number_def
          frame_cols_def dtype_of_def cell_equal_integers)
qed

text \<open>
  Claim C2 as stated fails for numbers that differ by less than the tolerance: the two
  one-cell result sets below hold different floats, 85.5 and 85.5 + 1/4096, and are
  judged correct.
\<close>

theorem verify_close_values_counterexample:
  "REAL (171 / 2) \<noteq> REAL (171 / 2 + 1 / 4096)
   \<and> verify (to_dataframe \<lparr>columns = [Name ''avg''], records = [[REAL (171 / 2)]]\<rparr>)
             (to_dataframe \<lparr>columns = [Name ''avg''], records = [[REAL (171 / 2 + 1 / 4096)]]\<rparr>)
       = Correct"
  by code_simp

text \<open>
  The comparison at some particular values: a BLOB beside a string in a single column
  cannot be sorted; the double nearest to \<open>10^-8\<close> is within the absolute tolerance of
  zero; and the integer \<open>2^53 + 1\<close>, in an integer column, equals the float \<open>2^53\<close> of a
  float column, since it is converted to a double first.
\<close>

lemma verify_blob_beside_text:
  "verify (to_dataframe \<lparr>columns = [Name ''v''], records = [[BLOB [CHR 0x00]], [TEXT ''a'']]\<rparr>)
          (to_dataframe \<lparr>columns = [Name ''v''], records = [[TEXT ''a''], [BLOB [CHR 0x00]]]\<rparr>)
     = CannotCompare TypeError"
  by (simp add: verify_def sort_values_def can_sort_def renumber_def frame_cols_def
      one_kind_def is_number_def to_dataframe_def dtype_of_def convert_row_def)

lemma verify_zero_and_atol:
  "verify (to_dataframe \<lparr>columns = [Name ''v''], records = [[REAL 0]]\<rparr>)
          (to_dataframe \<lparr>columns = [Name ''v''], records = [[REAL (float64 (1 / 100000000))]]\<rparr>)
     = Correct"
  by code_simp

lemma verify_integer_against_float:
  "verify (to_dataframe \<lparr>columns = [Name ''v''], records = [[INTEGER (2 ^ 53 + 1)]]\<rparr>)
          (to_dataframe \<lparr>columns = [Name ''v''], records = [[REAL (2 ^ 53)]]\<rparr>)
     = Correct"
  by code_simp

section \<open>Properties of the ledger\<close>

lemma save_history_rows:
  "USER_HISTORY d = Some rows \<Longrightarrow>
   USER_HISTORY (fst (save_history now qid sql ok err d)) =
     Some (rows @ [\<lparr>hid = next_id rows (sqlite_sequence d), question_id = qid, user_sql = sql,
                    is_correct = ok, error_message = err, timestamp = now\<rparr>])"
  by (simp add: save_history_def Let_def)

lemma save_history_missing:
  "USER_HISTORY d = None \<Longrightarrow> save_history now qid sql ok err d = (d, [SaveHistoryFailed])"
  by (simp add: save_history_def)

text \<open>
  Claim C6. The set returned by \<open>get_solved_questions\<close> holds a question id exactly when
  the ledger table exists and has a row for that id with \<open>is_correct\<close> set; recording a
  row with \<open>is_correct = False\<close>, for any question, leaves the set as it was.
\<close>

theorem solved_iff_correct_entry:
  "(q \<in> get_solved_questions d \<longleftrightarrow>
      (\<exists>rows. USER_HISTORY d = Some rows \<and> (\<exists>r \<in> set rows. question_id r = q \<and> is_correct r)))
   \<and> get_solved_questions (fst (save_history now q' sql False err d)) = get_solved_questions d"
proof
  show "q \<in> get_solved_questions d \<longleftrightarrow>
      (\<exists>rows. USER_HISTORY d = Some rows \<and> (\<exists>r \<in> set rows. question_id r = q \<and> is_correct r))"
    by (cases "USER_HISTORY d") (auto simp: get_solved_questions_def)
next
  show "get_solved_questions (fst (save_history now q' sql False err d)) = get_solved_questions d"
    by (cases "USER_HISTORY d") (simp_all add: get_solved_questions_def save_history_def Let_def)
qed

theorem solved_iff_correct_entry_witness:
  "(4::int) \<in> get_solved_questions
      \<lparr>USER_HISTORY = Some [\<lparr>hid = 1, question_id = 4, user_sql = ''SELECT 1'', is_correct = True,
                              error_message = None, timestamp = 7\<rparr>],
       sqlite_sequence = 1, grading = ()\<rparr>"
proof -
  let ?r = "\<lparr>hid = 1, question_id = 4, user_sql = ''SELECT 1'', is_correct = True,
             error_message = None, timestamp = 7\<rparr>"
  let ?d = "\<lparr>USER_HISTORY = Some [?r], sqlite_sequence = 1, grading = ()\<rparr>"
  have "\<exists>rows. USER_HISTORY ?d = Some rows \<and> (\<exists>r \<in> set rows. question_id r = 4 \<and> is_correct r)"
    by simp
  then show ?thesis
    using solved_iff_correct_entry [of 4 ?d 0 0 "[]" None] by blast
qed

section \<open>Order of the history of a question\<close>

lemma order_by_timestamp_desc_snoc_newer:
  assumes "\<forall>x \<in> set rows. timestamp x < timestamp r"
  shows "order_by_timestamp_desc (rows @ [r]) = r # order_by_timestamp_desc rows"
proof -
  let ?k = "\<lambda>r. - int (timestamp r)"
  have "sort_key ?k (rows @ [r]) = r # sort_key ?k rows"
  proof (rule properties_for_sort_key)
    show "mset (r # sort_key ?k rows) = mset (rows @ [r])" by simp
    show "sorted (map ?k (r # sort_key ?k rows))"
      using assms by (auto simp: less_imp_le)
    show "filter (\<lambda>x. ?k k = ?k x) (r # sort_key ?k rows) = filter (\<lambda>x. ?k k = ?k x) (rows @ [r])"
      if "k \<in> set (r # sort_key ?k rows)" for k
    proof -
      have st: "filter (\<lambda>x. ?k k = ?k x) (sort_key ?k rows) = filter (\<lambda>x. ?k k = ?k x) rows"
        using sort_key_stable [of ?k "?k k" rows] by (simp add: eq_commute)
      show ?thesis
      proof (cases "timestamp k = timestamp r")
        case True
        then have "filter (\<lambda>x. ?k k = ?k x) rows = []"
          using assms by (auto simp: filter_empty_conv)
        with st True show ?thesis by simp
      next
        case False
        with st show ?thesis by simp
      qed
    qed
  qed
  then show ?thesis by (simp add: order_by_timestamp_desc_def)
qed

text \<open>
  When the clock has moved on since every earlier entry of the question, the new entry
  is listed first and the earlier ones follow as they were listed before.
\<close>

lemma get_history_after_save_newer:
  assumes "USER_HISTORY d = Some rows"
    and "\<forall>x \<in> set rows. question_id x = qid \<longrightarrow> timestamp x < now"
  shows "get_history qid (fst (save_history now qid sql ok err d)) =
           (sql, ok, err, now) # get_history qid d"
proof -
  let ?r = "\<lparr>hid = next_id rows (sqlite_sequence d), question_id = qid, user_sql = sql,
             is_correct = ok, error_message = err, timestamp = now\<rparr>"
  have "\<forall>x \<in> set (filter (\<lambda>r. question_id r = qid) rows). timestamp x < timestamp ?r"
    using assms(2) by simp
  then have "order_by_timestamp_desc (filter (\<lambda>r. question_id r = qid) rows @ [?r]) =
        ?r # order_by_timestamp_desc (filter (\<lambda>r. question_id r = qid) rows)"
    by (rule order_by_timestamp_desc_snoc_newer)
  then show ?thesis
    using assms(1) by (simp add: get_history_def save_history_rows view_of_def)
qed

text \<open>
  Claim C7, at a ledger where it fails. Question 0 has one entry, made at second 100;
  a second submission for question 0 is recorded within the same second. The history
  then lists the earlier entry first and the newly recorded one after it.
\<close>

theorem get_history_same_second_lists_older_first:
  "get_history 0 (fst (save_history 100 0 ''SELECT 2'' True None
      \<lparr>USER_HISTORY = Some [\<lparr>hid = 1, question_id = 0, user_sql = ''SELECT 1'',
                              is_correct = False, error_message = Some ''Result mismatch'',
                              timestamp = 100\<rparr>],
       sqlite_sequence = 1, grading = ()\<rparr>))
   = [(''SELECT 1'', False, Some ''Result mismatch'', 100), (''SELECT 2'', True, None, 100)]"
  by (simp add: get_history_def save_history_def next_id_def order_by_timestamp_desc_def
      view_of_def)

section \<open>Properties of the run and submit buttons\<close>

text \<open>
  When the reference query answers in time with a frame, the outcome of the submission
  is the verdict of \<open>verify\<close>: \<open>is_correct\<close> exactly for \<open>Correct\<close>, the message
  \<^verbatim>\<open>Result mismatch\<close> exactly for \<open>Mismatch\<close>.
\<close>

lemma grade_submission_compared:
  assumes "answer_sql current_q \<noteq> []"
    and "eng (answer_sql current_q) d = Some (Inr fetched, d', ms)"
    and "ms \<le> 2 * 1000"
  shows "grade_submission eng str current_q user_df error d =
           (case verify (to_dataframe fetched) user_df of
              Correct \<Rightarrow> Some (True, error, d', [ToastCorrect])
            | Mismatch \<Rightarrow> Some (False, Some ''Result mismatch'', d', [ToastMismatch])
            | CannotCompare e \<Rightarrow> Some (False, Some (str e), d', [ToastCannotCompare (str e)]))"
  using assms
  by (simp add: grade_submission_def run_query_with_timeout_def run_query_def)

lemma strip_empty_iff: "strip s = [] \<longleftrightarrow> (\<forall>ch \<in> set s. py_isspace ch)"
proof -
  have "set s = set (takeWhile py_isspace s) \<union> set (dropWhile py_isspace s)"
    by (metis set_append takeWhile_dropWhile_id)
  then have "(\<forall>ch \<in> set (dropWhile py_isspace s). py_isspace ch) \<longleftrightarrow> (\<forall>ch \<in> set s. py_isspace ch)"
    by (auto dest: set_takeWhileD)
  then show ?thesis
    by (simp add: strip_def dropWhile_eq_Nil_conv)
qed

text \<open>
  Claim C10. A click on either button with an editor text that is empty or all
  whitespace returns the database as it was, ledger included, and shows only the
  request to enter SQL. This holds for every engine, also one that would never answer:
  no query is sent.
\<close>

theorem blank_sql_changes_nothing:
  assumes "run_clicked c \<or> submit_clicked c"
    and "\<forall>ch \<in> set (sql_input c). py_isspace ch"
  shows "on_click eng str now current_q c d = Some (d, [EnterSqlWarning])"
  using assms by (simp add: on_click_def strip_empty_iff)

theorem blank_sql_changes_nothing_witness:
  "on_click (\<lambda>q d. None) (\<lambda>e. []) 50
     \<lparr>q_id = 0, title = ''count rows'', description = ''count rows'',
      answer_sql = ''SELECT COUNT(*) FROM t''\<rparr>
     \<lparr>run_clicked = False, submit_clicked = True, sql_input = [CHR 0x20, CHR 0x09, CHR 0x0A]\<rparr>
     \<lparr>USER_HISTORY = Some [], sqlite_sequence = 0, grading = ()\<rparr>
   = Some (\<lparr>USER_HISTORY = Some [], sqlite_sequence = 0, grading = ()\<rparr>, [EnterSqlWarning])"
  by (rule blank_sql_changes_nothing) (simp_all add: py_isspace_def)

lemma on_click_query_error:
  assumes "run_clicked c \<or> submit_clicked c" "strip (sql_input c) \<noteq> []"
    and "eng (sql_input c) d = Some (Inl e, d1, ms)" "e \<noteq> []"
  shows "on_click eng str now current_q c d = Some (d1, [ExecError e])"
  using assms by (simp add: on_click_def run_query_def)

text \<open>
  Claim C3, at a submission where it fails. The learner submits \<^verbatim>\<open>SELEKT * FROM t\<close>,
  the engine answers with an error, and the ledger is empty before. The handler shows
  the error and returns; \<open>save_history\<close> is called only in the branch for a query
  that succeeded, so the ledger is still empty afterwards.
\<close>

theorem failed_submission_is_not_recorded:
  "on_click (\<lambda>q d. Some (Inl ''near SELEKT: syntax error'', d, 1)) (\<lambda>e. []) 50
     \<lparr>q_id = 0, title = ''count rows'', description = ''count rows'',
      answer_sql = ''SELECT COUNT(*) FROM t''\<rparr>
     \<lparr>run_clicked = False, submit_clicked = True, sql_input = ''SELEKT * FROM t''\<rparr>
     \<lparr>USER_HISTORY = Some [], sqlite_sequence = 0, grading = ()\<rparr>
   = Some (\<lparr>USER_HISTORY = Some [], sqlite_sequence = 0, grading = ()\<rparr>,
           [ExecError ''near SELEKT: syntax error''])"
  by (simp add: on_click_def run_query_def strip_def py_isspace_def)

text \<open>
  The learner's query succeeds, the question has a reference query, and the reference
  query takes more than two seconds and finishes. Then, the ledger table being there,
  exactly one row is appended, with \<open>is_correct = False\<close> and the message
  \<^verbatim>\<open>Reference answer timeout, validation skipped.\<close>; the page shows the learner's result
  and the timeout warning and no outcome of a comparison, and nothing depends on the
  answer \<open>res\<close> of the reference query.
\<close>

lemma reference_timeout_is_recorded:
  assumes "submit_clicked c"
    and "strip (sql_input c) \<noteq> []"
    and "eng (sql_input c) d = Some (Inr fetched, d1, ms1)"
    and "answer_sql current_q \<noteq> []"
    and "eng (answer_sql current_q) d1 = Some (res, d2, ms2)"
    and "2 * 1000 < ms2"
    and "USER_HISTORY d2 = Some rows"
  shows "on_click eng str now current_q c d =
           Some (d2\<lparr>USER_HISTORY :=
                      Some (rows @ [\<lparr>hid = next_id rows (sqlite_sequence d2),
                                      question_id = q_id current_q, user_sql = sql_input c,
                                      is_correct = False,
                                      error_message =
                                        Some ''Reference answer timeout, validation skipped.'',
                                      timestamp = now\<rparr>]),
                    sqlite_sequence := next_id rows (sqlite_sequence d2)\<rparr>,
                 [ShowResult (take 10 (records (to_dataframe fetched)))
                    (length (records (to_dataframe fetched))),
                  ReferenceTimeoutWarning])"
proof -
  have t: "run_query_with_timeout eng (answer_sql current_q) 2 d1 =
             Some ((None, Some ''Timeout''), d2, ms2)"
    using assms(5,6) by (cases res) (simp_all add: run_query_with_timeout_def run_query_def)
  have g: "grade_submission eng str current_q (to_dataframe fetched) None d1 =
             Some (False, Some ''Reference answer timeout, validation skipped.'', d2,
                   [ReferenceTimeoutWarning])"
    using assms(4) t by (simp add: grade_submission_def)
  show ?thesis
    using assms(1,2,3,7) g
    by (simp add: on_click_def run_query_def save_history_def Let_def)
qed

text \<open>
  A reference query that never finishes: the handler waits for it forever, and the
  submission is never recorded.
\<close>

lemma on_click_reference_never_finishes:
  assumes "submit_clicked c"
    and "strip (sql_input c) \<noteq> []"
    and "eng (sql_input c) d = Some (Inr fetched, d1, ms1)"
    and "answer_sql current_q \<noteq> []"
    and "eng (answer_sql current_q) d1 = None"
  shows "on_click eng str now current_q c d = None"
  using assms
  by (simp add: on_click_def run_query_def grade_submission_def run_query_with_timeout_def)

text \<open>
  Claim C4, at a submission where it fails. The learner's query \<^verbatim>\<open>SELECT 1\<close> succeeds;
  the reference query of the question exceeds every time bound, since it never
  finishes. \<open>run_query_with_timeout\<close> then never gives control back to the handler (the
  defect shown under claim C5), so \<open>save_history\<close> is never reached: no entry with the
  timeout message is recorded, and the handler does not return at all.
\<close>

theorem never_finishing_reference_is_not_recorded:
  "on_click
     (\<lambda>q d. if q = ''SELECT 1''
             then Some (Inr \<lparr>columns = [Name ''1''], records = [[INTEGER 1]]\<rparr>, d, 3)
             else None)
     (\<lambda>e. []) 50
     \<lparr>q_id = 0, title = ''count'', description = ''count'',
      answer_sql = ''WITH RECURSIVE c(x) AS (SELECT 1 UNION ALL SELECT x+1 FROM c) SELECT x FROM c''\<rparr>
     \<lparr>run_clicked = False, submit_clicked = True, sql_input = ''SELECT 1''\<rparr>
     \<lparr>USER_HISTORY = Some [], sqlite_sequence = 0, grading = ()\<rparr>
   = None"
  by (simp add: on_click_def run_query_def grade_submission_def run_query_with_timeout_def
      strip_def py_isspace_def)

section \<open>Properties of the bounded execution\<close>

lemma run_query_with_timeout_elapsed:
  "run_query_with_timeout eng query limit d = Some (res, d', ms) \<Longrightarrow>
   \<exists>out. eng query d = Some (out, d', ms)"
  by (auto simp: run_query_with_timeout_def run_query_def
      split: option.splits sum.splits if_splits)

text \<open>
  Claim C5, at a query where it fails. With a limit of 2 seconds, a query that takes 10
  seconds gives \<^verbatim>\<open>Timeout\<close>, but control is back at the caller after 10 seconds, not
  after 2: leaving the \<^verbatim>\<open>with\<close> block joins the worker. A query that never finishes
  never gives control back.
\<close>

theorem slow_query_blocks_past_the_limit:
  "run_query_with_timeout
     (\<lambda>q d. Some (Inr \<lparr>columns = [Name ''n''], records = [[INTEGER 3]]\<rparr>, d, 10000))
     ''SELECT COUNT(*) FROM t'' 2 \<lparr>USER_HISTORY = Some [], sqlite_sequence = 0, grading = ()\<rparr>
   = Some ((None, Some ''Timeout''), \<lparr>USER_HISTORY = Some [], sqlite_sequence = 0, grading = ()\<rparr>,
           10000)
   \<and> run_query_with_timeout (\<lambda>q d. None)
     ''SELECT COUNT(*) FROM t'' 2 \<lparr>USER_HISTORY = Some [], sqlite_sequence = 0, grading = ()\<rparr>
   = None"
  by (simp add: run_query_with_timeout_def run_query_def)

section \<open>Properties of seeding\<close>

lemma run_seed_files_ledger:
  assumes "\<And>f content d. f \<in> set files \<Longrightarrow> fs (path_join SQL_DIR f) = Some content \<Longrightarrow>
             USER_HISTORY (snd (ex (preprocess content) d)) = USER_HISTORY d"
  shows "USER_HISTORY (snd (run_seed_files ex fs files d)) = USER_HISTORY d"
  using assms
proof (induction files arbitrary: d)
  case Nil
  then show ?case by simp
next
  case (Cons f files)
  have IH: "USER_HISTORY (snd (run_seed_files ex fs files d')) = USER_HISTORY d'" for d'
    by (rule Cons.IH) (use Cons.prems in auto)
  show ?case
  proof (cases "fs (path_join SQL_DIR f)")
    case None
    then show ?thesis using IH by simp
  next
    case (Some content)
    obtain r d' where ex: "ex (preprocess content) d = (r, d')"
      by (cases "ex (preprocess content) d")
    have keep: "USER_HISTORY d' = USER_HISTORY d"
      using Cons.prems [of f content d] Some ex by simp
    show ?thesis
    proof (cases r)
      case None
      show ?thesis using Some ex None keep IH [of d'] by simp
    next
      case (Some e)
      then show ?thesis using \<open>fs (path_join SQL_DIR f) = Some content\<close> ex keep by simp
    qed
  qed
qed

text \<open>
  Claim C9. Provided that running a seed file leaves the ledger table alone (the seed
  files define the tables STUDENTS, TEACHERS, COURSES and CHOICES), \<^verbatim>\<open>init_db\<close> of
  app.py leaves an existing ledger table with its rows as they were and creates an
  empty one when there was none, and \<^verbatim>\<open>init_db\<close> of reset_db.py leaves the ledger
  table as it was, also when a seed file fails.
\<close>

theorem reseed_keeps_ledger_rows:
  assumes "\<forall>f \<in> set SQL_FILES. \<forall>content. fs (path_join SQL_DIR f) = Some content \<longrightarrow>
             (\<forall>d. USER_HISTORY (snd (ex (preprocess content) d)) = USER_HISTORY d)"
  shows "USER_HISTORY (fst (init_db ex fs d)) =
           (case USER_HISTORY d of None \<Rightarrow> Some [] | Some rows \<Rightarrow> Some rows)
       \<and> USER_HISTORY (fst (reset_db_init_db ex fs d)) = USER_HISTORY d"
proof -
  have keep: "USER_HISTORY (snd (run_seed_files ex fs SQL_FILES d')) = USER_HISTORY d'" for d'
    by (rule run_seed_files_ledger) (use assms in blast)
  have a: "USER_HISTORY (fst (init_db ex fs d)) =
      USER_HISTORY (snd (run_seed_files ex fs SQL_FILES (create_history_if_not_exists d)))"
    by (simp add: init_db_def split: prod.splits option.splits)
  have b: "USER_HISTORY (fst (reset_db_init_db ex fs d)) =
      USER_HISTORY (snd (run_seed_files ex fs SQL_FILES d))"
    by (simp add: reset_db_init_db_def split: prod.splits option.splits)
  have c: "USER_HISTORY (create_history_if_not_exists d) =
      (case USER_HISTORY d of None \<Rightarrow> Some [] | Some rows \<Rightarrow> Some rows)"
    by (simp add: create_history_if_not_exists_def split: option.splits)
  show ?thesis
    using a b c keep by simp
qed

theorem reseed_keeps_ledger_rows_witness:
  "USER_HISTORY (fst (init_db
      (\<lambda>content d. (None, d\<lparr>grading := length content\<rparr>))
      (\<lambda>p. if p = ''school/STUDENTS.sql'' then Some ''use school; drop table STUDENTS;'' else None)
      \<lparr>USER_HISTORY = Some [\<lparr>hid = 1, question_id = 0, user_sql = ''SELECT 1'', is_correct = True,
                              error_message = None, timestamp = 7\<rparr>],
       sqlite_sequence = 1, grading = 0\<rparr>))
   = Some [\<lparr>hid = 1, question_id = 0, user_sql = ''SELECT 1'', is_correct = True,
            error_message = None, timestamp = 7\<rparr>]"
proof -
  let ?ex = "\<lambda>content d. (None :: string option, (d :: nat db)\<lparr>grading := length (content :: string)\<rparr>)"
  let ?fs = "\<lambda>p. if p = ''school/STUDENTS.sql'' then Some ''use school; drop table STUDENTS;'' else None"
  have h: "\<forall>f \<in> set SQL_FILES. \<forall>content. ?fs (path_join SQL_DIR f) = Some content \<longrightarrow>
             (\<forall>d. USER_HISTORY (snd (?ex (preprocess content) d)) = USER_HISTORY d)"
    by simp
  show ?thesis
    using reseed_keeps_ledger_rows [OF h] by simp
qed

section \<open>Properties of navigation\<close>

lemma index_of_less: "index_of xs y = Some k \<Longrightarrow> k < length xs"
  by (induction xs arbitrary: k) (auto split: if_splits)

lemma ensure_valid_index_range:
  "0 < length ts \<Longrightarrow> (case s of None \<Rightarrow> True | Some i \<Rightarrow> 0 \<le> i) \<Longrightarrow>
   0 \<le> ensure_valid_index ts s \<and> ensure_valid_index ts s < int (length ts)"
  by (cases s) (auto simp: ensure_valid_index_def Let_def)

lemma callback_range:
  assumes "0 \<le> i" "i < int (length ts)"
  shows "0 \<le> callback ts e i \<and> callback ts e i < int (length ts)"
proof (cases e)
  case (Select t)
  then show ?thesis
    using assms index_of_less [of ts t]
    by (auto simp: update_index_def split: option.splits)
qed (use assms in \<open>auto simp: prev_question_def next_question_def\<close>)

lemma navigate_range:
  "0 < length ts \<Longrightarrow> (case s of None \<Rightarrow> True | Some i \<Rightarrow> 0 \<le> i) \<Longrightarrow>
   0 \<le> navigate ts s es \<and> navigate ts s es < int (length ts)"
proof (induction es arbitrary: s)
  case Nil
  then show ?case using ensure_valid_index_range [of ts s] by simp
next
  case (Cons e es)
  have "0 \<le> ensure_valid_index ts s \<and> ensure_valid_index ts s < int (length ts)"
    using Cons.prems by (rule ensure_valid_index_range)
  then have "0 \<le> callback ts e (ensure_valid_index ts s)"
    using callback_range by blast
  then show ?case
    using Cons.IH [of "Some (callback ts e (ensure_valid_index ts s))"] Cons.prems(1) by simp
qed

text \<open>
  Claim C8. Over a question list of length \<open>N \<ge> 1\<close>, a session that starts fresh and
  goes through any sequence of interactions has its index in \<open>[0, N-1]\<close> at every
  script run. On an index in that range, \<open>next_question\<close> adds one unless the index is
  \<open>N-1\<close> and \<open>prev_question\<close> subtracts one unless it is 0; and a stored index at or above
  \<open>N\<close> is replaced by 0 when the script starts.
\<close>

theorem current_index_in_bounds:
  assumes "1 \<le> length ts"
  shows "(0 \<le> navigate ts None es \<and> navigate ts None es \<le> int (length ts) - 1)
       \<and> (0 \<le> i \<and> i \<le> int (length ts) - 1 \<longrightarrow>
            next_question ts i = (if i = int (length ts) - 1 then i else i + 1)
          \<and> prev_question i = (if i = 0 then i else i - 1))
       \<and> (int (length ts) \<le> j \<longrightarrow> ensure_valid_index ts (Some j) = 0)"
proof -
  have pos: "0 < length ts"
    using assms by (cases ts) simp_all
  have "0 \<le> navigate ts None es \<and> navigate ts None es < int (length ts)"
    using pos by (rule navigate_range) simp
  then have a: "0 \<le> navigate ts None es \<and> navigate ts None es \<le> int (length ts) - 1"
    by simp
  have b: "0 \<le> i \<and> i \<le> int (length ts) - 1 \<longrightarrow>
           next_question ts i = (if i = int (length ts) - 1 then i else i + 1)
         \<and> prev_question i = (if i = 0 then i else i - 1)"
    unfolding next_question_def prev_question_def by presburger
  have c: "int (length ts) \<le> j \<longrightarrow> ensure_valid_index ts (Some j) = 0"
    by (simp add: ensure_valid_index_def)
  from a b c show ?thesis by blast
qed

theorem current_index_in_bounds_witness:
  "1 \<le> length [''1. a'', ''2. b'', ''3. c'']
   \<and> navigate [''1. a'', ''2. b'', ''3. c''] None [Next, Next, Next, Prev, Select ''3. c'', Next] = 2
   \<and> next_question [''1. a'', ''2. b'', ''3. c''] 1 = 2
   \<and> prev_question 0 = 0
   \<and> ensure_valid_index [''1. a'', ''2. b'', ''3. c''] (Some 3) = 0"
proof -
  let ?ts = "[''1. a'', ''2. b'', ''3. c'']"
  have h: "1 \<le> length ?ts" by simp
  have n: "navigate ?ts None [Next, Next, Next, Prev, Select ''3. c'', Next] = 2"
    by (simp add: ensure_valid_index_def next_question_def prev_question_def update_index_def)
  show ?thesis
    using h n current_index_in_bounds [OF h, of "[Next, Next, Next, Prev, Select ''3. c'', Next]" 1 3]
    by (simp add: prev_question_def)
qed

end
